theory Spec2Isabelle
  imports Main
begin

section \<open>Values, exceptions and effects\<close>

text \<open>
  The task pipeline of \<^verbatim>\<open>github_actions_integration/__main__.py\<close> has three
  entry points: \<^verbatim>\<open>main_run_task\<close> (the sandboxed Runner), \<^verbatim>\<open>main_finalize_task\<close>
  (the trusted Finalizer) and \<^verbatim>\<open>main_automerge\<close>. Each is embedded as a function that
  returns the sequence of calls it makes on its collaborators (git, the forge API, the
  opaque rerender/lint/version operations, the log) together with the way it ends: a
  normal return or a Python exception, \<^verbatim>\<open>sys.exit\<close> being the exception
  \<^verbatim>\<open>SystemExit\<close>.

  The collaborators themselves (\<^verbatim>\<open>rerender\<close>, \<^verbatim>\<open>update_version\<close>,
  \<^verbatim>\<open>lint_feedstock\<close>, \<^verbatim>\<open>comment_and_push_if_changed\<close>, the git and forge
  clients) are imported from other modules; what they return is a parameter of the
  model (the environment records below) and a call on them is an entry of the trace.
  What the module's own statements raise (a lookup of an absent key, an attribute of
  \<^verbatim>\<open>None\<close>, a slice of \<^verbatim>\<open>None\<close>, a local variable read before it is
  bound, \<^verbatim>\<open>raise ValueError\<close>, \<^verbatim>\<open>sys.exit(1)\<close>) is a branch of the model.
\<close>

text \<open>
  The Task Result is written with \<^verbatim>\<open>json.dump\<close> and read back with
  \<^verbatim>\<open>json.load\<close>; its \<^verbatim>\<open>task_results\<close> entry is a dictionary from strings to
  JSON values. A dictionary is an association list in insertion order.
\<close>

datatype json =
    JNull
  | JBool bool
  | JInt int
  | JStr string
  | JArr "json list"
  | JObj "(string \<times> json) list"

type_synonym dict = "(string \<times> json) list"

text \<open>Python's truth value of a JSON value, as \<^verbatim>\<open>if x:\<close> and \<^verbatim>\<open>not x\<close> test it.\<close>

fun truthy :: "json \<Rightarrow> bool" where
  "truthy JNull = False"
| "truthy (JBool b) = b"
| "truthy (JInt i) = (i \<noteq> 0)"
| "truthy (JStr s) = (s \<noteq> [])"
| "truthy (JArr xs) = (xs \<noteq> [])"
| "truthy (JObj kvs) = (kvs \<noteq> [])"

text \<open>\<^verbatim>\<open>a or b\<close> is \<^verbatim>\<open>a\<close> when \<^verbatim>\<open>a\<close> is true, else \<^verbatim>\<open>b\<close>.\<close>

definition py_or :: "json \<Rightarrow> json \<Rightarrow> json" where
  "py_or a b = (if truthy a then a else b)"

definition json_of_opt :: "string option \<Rightarrow> json" where
  "json_of_opt s = (case s of None \<Rightarrow> JNull | Some t \<Rightarrow> JStr t)"

datatype py_exn =
    ValueError string
  | KeyError string
  | AttributeError string
  | TypeError string
  | UnboundLocalError string
  | SystemExit nat

text \<open>\<^verbatim>\<open>d[k] = v\<close>: the value of an existing key is replaced, a new key goes last.\<close>

fun setitem :: "dict \<Rightarrow> string \<Rightarrow> json \<Rightarrow> dict" where
  "setitem [] k v = [(k, v)]"
| "setitem ((k', v') # d) k v =
     (if k' = k then (k, v) # d else (k', v') # setitem d k v)"

text \<open>\<^verbatim>\<open>d[k]\<close> raises \<^verbatim>\<open>KeyError\<close> on an absent key.\<close>

definition getitem :: "dict \<Rightarrow> string \<Rightarrow> py_exn + json" where
  "getitem d k = (case map_of d k of None \<Rightarrow> Inl (KeyError k) | Some v \<Rightarrow> Inr v)"

text \<open>\<^verbatim>\<open>d.get(k, default)\<close>.\<close>

definition dict_get :: "dict \<Rightarrow> string \<Rightarrow> json \<Rightarrow> json" where
  "dict_get d k dflt = (case map_of d k of None \<Rightarrow> dflt | Some v \<Rightarrow> v)"

text \<open>
  The Task Result, \<^verbatim>\<open>task_data\<close> in the source. The field \<open>td_x\<close> is the entry
  \<^verbatim>\<open>task_data["x"]\<close>; the Runner writes all five entries on every path that
  writes the file.
\<close>

record task_data =
  td_task :: string
  td_repo :: string
  td_pr_number :: string
  td_sha :: "string option"
  td_task_results :: dict

text \<open>
  The live pull request: \<open>pr_state\<close> is \<^verbatim>\<open>pr.state\<close>, \<open>pr_head_ref\<close> is
  \<^verbatim>\<open>pr.head.ref\<close>, \<open>pr_head_repo_owner_login\<close> is
  \<^verbatim>\<open>pr.head.repo.owner.login\<close>, and so on.
\<close>

record pull_request =
  pr_state :: string
  pr_num :: nat
  pr_head_ref :: string
  pr_head_sha :: string
  pr_head_repo_owner_login :: string
  pr_head_repo_name :: string
  pr_title :: string
  pr_user_login :: string

text \<open>A comment of the forge, as \<^verbatim>\<open>make_lint_comment\<close> returns it.\<close>

record comment =
  html_url :: string
  body :: string

text \<open>The keyword arguments of \<^verbatim>\<open>comment_and_push_if_changed\<close> that vary.\<close>

record push_args =
  pa_action :: string
  pa_changed :: json
  pa_error :: json
  pa_pr_branch :: string
  pa_pr_owner :: string
  pa_pr_repo :: string
  pa_repo_name :: string
  pa_close_pr_if_no_changes_or_errors :: bool
  pa_info_message :: json

text \<open>
  The calls on the collaborators, by collaborator: the git client and the
  \<^verbatim>\<open>git\<close> subprocesses, the sandboxed tool operations, the local file system,
  and the forge API, reads apart from writes. A logging call carries its message and
  the arguments that the logger (or an f-string's \<^verbatim>\<open>{x=}\<close>) interpolates into it.
\<close>

datatype git_call =
    CloneFrom string string "string option"
  | FetchPullHead string
  | SwitchPullHead string
  | GetGitPatch
  | GitApply
  | GitAddAll
  | GitCommit string

datatype tool_call =
    PullDockerImage
  | CallRerender
  | CallUpdateVersion string "string option"
  | CallLintFeedstock string

datatype file_call =
    MakeDirs string
  | WriteTaskData string task_data
  | RemoveTree string
  | MakeTempDir
  | WritePatchFile string

datatype forge_query =
    CreateApiSessions
  | GetRepo string
  | GetPull string
  | GetPulls
  | CreateApiSessionsForAdmin
  | GetRepoForAdmin string
  | GetPullForAdmin nat
  | GetRecipesForLinting json json

datatype forge_update =
    CommentAndPushIfChanged push_args
  | SetRerenderPrStatus string string string "string option"
  | MarkPrAsReadyForReview
  | UpdatePrTitle string string json
  | MakeLintComment string
  | BuildAndMakeLintComment json json
  | SetPrStatus "string option" string string
  | AutomergePr nat

datatype effect =
    LogInfo string "json list"
  | LogWarning string "json list"
  | LogError string "json list"
  | Print string
  | PrintTaskResults dict
  | Git git_call
  | Tool tool_call
  | File file_call
  | Query forge_query
  | Update forge_update

text \<open>
  A run is the trace of effects so far and either the exception that ended it or the
  value computed.
\<close>

type_synonym 'a run = "effect list \<times> (py_exn + 'a)"

definition ret :: "'a \<Rightarrow> 'a run" where
  "ret v = ([], Inr v)"

definition raise :: "py_exn \<Rightarrow> 'a run" where
  "raise x = ([], Inl x)"

definition emit :: "effect list \<Rightarrow> unit run" where
  "emit es = (es, Inr ())"

definition lift :: "py_exn + 'a \<Rightarrow> 'a run" where
  "lift r = ([], r)"

definition and_then :: "'a run \<Rightarrow> ('a \<Rightarrow> 'b run) \<Rightarrow> 'b run" where
  "and_then m f =
     (case m of
        (es, Inl x) \<Rightarrow> (es, Inl x)
      | (es, Inr v) \<Rightarrow> (case f v of (es', r) \<Rightarrow> (es @ es', r)))"

text \<open>
  The exit status of the process: 0 after a normal return, the argument of
  \<^verbatim>\<open>sys.exit\<close>, and 1 after any other uncaught exception.
\<close>

fun exit_code :: "py_exn + unit \<Rightarrow> nat" where
  "exit_code (Inr _) = 0"
| "exit_code (Inl (SystemExit n)) = n"
| "exit_code (Inl _) = 1"

section \<open>Strings and paths\<close>

definition lower_char :: "char \<Rightarrow> char" where
  "lower_char c =
     (case map_of (zip ''ABCDEFGHIJKLMNOPQRSTUVWXYZ'' ''abcdefghijklmnopqrstuvwxyz'') c of
        None \<Rightarrow> c
      | Some l \<Rightarrow> l)"

text \<open>
  \<^verbatim>\<open>str.lower\<close> on the ASCII letters. No character outside ASCII has a lower case
  among the letters of \<^verbatim>\<open>null\<close> and \<^verbatim>\<open>none\<close>, so the two comparisons of the
  Runner come out as in Python.
\<close>

definition lower :: "string \<Rightarrow> string" where
  "lower s = map lower_char s"

text \<open>\<^verbatim>\<open>os.path.join\<close> of two components (POSIX).\<close>

definition path_join :: "string \<Rightarrow> string \<Rightarrow> string" where
  "path_join a b =
     (if b \<noteq> [] \<and> hd b = CHR ''/'' then b
      else if a = [] \<or> last a = CHR ''/'' then a @ b
      else a @ ''/'' @ b)"

text \<open>\<^verbatim>\<open>f"{x}"\<close> of a string or \<^verbatim>\<open>None\<close>.\<close>

definition py_format :: "string option \<Rightarrow> string" where
  "py_format s = (case s of None \<Rightarrow> ''None'' | Some t \<Rightarrow> t)"

section \<open>The sandboxed task runner\<close>

text \<open>
  What \<^verbatim>\<open>lint_feedstock\<close> does inside the \<^verbatim>\<open>try\<close> block: it returns a pair, a
  triple, or the block raises an \<^verbatim>\<open>Exception\<close> (from the operation itself, or from
  taking apart a result of another shape), whose \<^verbatim>\<open>repr\<close> and traceback are logged.
  An interrupt of the process (\<^verbatim>\<open>KeyboardInterrupt\<close>, \<^verbatim>\<open>SystemExit\<close>) is not an
  \<^verbatim>\<open>Exception\<close> and is not part of the model.
\<close>

datatype lint_result =
    LintPair dict dict
  | LintTriple json json json
  | LintRaises string string

text \<open>
  What the Runner gets from outside: the tuple that \<^verbatim>\<open>rerender(git_repo)\<close>
  returns (each run calls it at most once), the triple that \<^verbatim>\<open>update_version\<close>
  returns for a repository name and an input version, what the lint operation does,
  and the patch of \<^verbatim>\<open>get_git_patch_relative_to_commit\<close>.
\<close>

record run_env =
  rerender_op :: "bool \<times> bool \<times> string option \<times> string option"
  update_version_op :: "string \<Rightarrow> string option \<Rightarrow> bool \<times> bool \<times> string option"
  lint_op :: lint_result
  git_patch :: "string option"

text \<open>Lines 94 to 102.\<close>

definition run_rerender :: "run_env \<Rightarrow> dict run" where
  "run_rerender env =
     (case rerender_op env of (changed, rerender_error, info_message, commit_message) \<Rightarrow>
        and_then (emit [Tool PullDockerImage, Tool CallRerender, Git GetGitPatch]) (\<lambda>_.
        ret (setitem (setitem (setitem (setitem (setitem []
               ''changed'' (JBool changed))
               ''rerender_error'' (JBool rerender_error))
               ''info_message'' (json_of_opt info_message))
               ''commit_message'' (json_of_opt commit_message))
               ''patch'' (json_of_opt (git_patch env)))))"

text \<open>
  Lines 104 to 109. The two comparisons call \<^verbatim>\<open>requested_version.lower()\<close> before
  \<^verbatim>\<open>not requested_version\<close> is looked at; the option's default is \<^verbatim>\<open>None\<close>.
\<close>

definition normalize_requested_version :: "string option \<Rightarrow> py_exn + string option" where
  "normalize_requested_version requested_version =
     (case requested_version of
        None \<Rightarrow> Inl (AttributeError ''lower'')
      | Some v \<Rightarrow>
          if lower v = ''null'' \<or> lower v = ''none'' \<or> v = []
          then Inr None else Inr (Some v))"

text \<open>Lines 127 to 148, after the version operation has returned.\<close>

definition chain_rerender :: "run_env \<Rightarrow> bool \<Rightarrow> string option \<Rightarrow> dict \<Rightarrow> dict run" where
  "chain_rerender env version_changed new_version results =
     (if version_changed then
        (let results1 = setitem results ''commit_message''
                          (JStr (''ENH: updated version to '' @ py_format new_version))
         in case rerender_op env of
              (rerender_changed, rerender_error, info_message, commit_message) \<Rightarrow>
           and_then (emit [Tool CallRerender]) (\<lambda>_.
           (let results2 = setitem (setitem (setitem results1
                             ''rerender_changed'' (JBool rerender_changed))
                             ''rerender_error'' (JBool rerender_error))
                             ''info_message'' (json_of_opt info_message)
            in and_then
                 (if rerender_changed then
                    (case commit_message of
                       None \<Rightarrow> raise (TypeError ''NoneType is not subscriptable'')
                     | Some m \<Rightarrow>
                         ret (setitem results2 ''commit_message''
                                (JStr (''ENH: updated version to '' @ py_format new_version
                                       @ '' & '' @ drop (length ''MNT: '') m))))
                  else ret results2) (\<lambda>results3.
               and_then (emit [Git GetGitPatch]) (\<lambda>_.
               ret (setitem results3 ''patch'' (json_of_opt (git_patch env))))))))
      else
        ret (setitem (setitem (setitem (setitem results
               ''rerender_changed'' (JBool False))
               ''rerender_error'' (JBool False))
               ''info_message'' JNull)
               ''commit_message'' JNull))"

text \<open>Lines 103 to 148.\<close>

definition run_version_update :: "run_env \<Rightarrow> string \<Rightarrow> string option \<Rightarrow> dict run" where
  "run_version_update env repo requested_version =
     and_then (lift (normalize_requested_version requested_version)) (\<lambda>requested_version.
     (let full_repo_name = ''conda-forge/'' @ repo
      in case update_version_op env full_repo_name requested_version of
           (version_changed, version_error, new_version) \<Rightarrow>
        and_then (emit [LogInfo (''version update requested version: '' @ [CHR 0x27]
                                 @ ''%s'' @ [CHR 0x27]) [json_of_opt requested_version],
                        Tool PullDockerImage,
                        Tool (CallUpdateVersion full_repo_name requested_version)]) (\<lambda>_.
        chain_rerender env version_changed new_version
          (setitem (setitem (setitem (setitem []
             ''version_changed'' (JBool version_changed))
             ''version_error'' (JBool version_error))
             ''new_version'' (json_of_opt new_version))
             ''patch'' JNull))))"

text \<open>
  Lines 150 to 172. The keys of the synthesized error map are those of
  \<^verbatim>\<open>set(lints.keys()) | set(hints.keys())\<close>; the order in which Python walks that
  set is not fixed, here it is first occurrence.
\<close>

definition run_lint :: "run_env \<Rightarrow> string \<Rightarrow> dict run" where
  "run_lint env feedstock_dir =
     and_then (emit [Tool PullDockerImage, Tool (CallLintFeedstock feedstock_dir)]) (\<lambda>_.
     and_then
       (case lint_op env of
          LintPair lints hints \<Rightarrow>
            ret (JBool False, JObj lints, JObj hints,
                 JObj (map (\<lambda>key. (key, JBool False))
                         (remdups (map fst lints @ map fst hints))))
        | LintTriple lints hints errors \<Rightarrow>
            ret (JBool False, lints, hints, errors)
        | LintRaises err trace \<Rightarrow>
            and_then (emit [LogWarning ''LINTING ERROR: %s'' [JStr err],
                            LogWarning ''LINTING ERROR TRACEBACK: %s'' [JStr trace]]) (\<lambda>_.
            ret (JBool True, JNull, JNull, JNull)))
       (\<lambda>(lint_error, lints, hints, errors).
     ret (setitem (setitem (setitem (setitem []
            ''lint_error'' lint_error)
            ''lints'' lints)
            ''hints'' hints)
            ''errors'' errors)))"

text \<open>The command \<^verbatim>\<open>conda-forge-webservices-run-task\<close>, lines 62 to 188.\<close>

definition main_run_task ::
  "run_env \<Rightarrow> string \<Rightarrow> string \<Rightarrow> string \<Rightarrow> string \<Rightarrow> string option \<Rightarrow> string option
   \<Rightarrow> unit run" where
  "main_run_task env task repo pr_number task_data_dir requested_version sha =
     (let action_desc = ''task `'' @ task @ ''` for conda-forge/'' @ repo @ ''#'' @ pr_number;
          feedstock_dir = path_join task_data_dir repo;
          repo_url = ''https://github.com/conda-forge/'' @ repo @ ''.git''
      in
      and_then (emit [LogInfo action_desc [],
                      Print (''::notice title=conda-forge-webservices job information::''
                             @ action_desc),
                      File (MakeDirs feedstock_dir),
                      Git (CloneFrom repo_url feedstock_dir None),
                      Git (FetchPullHead pr_number),
                      Git (SwitchPullHead pr_number)]) (\<lambda>_.
      and_then
        (if task = ''rerender'' then run_rerender env
         else if task = ''version_update'' then run_version_update env repo requested_version
         else if task = ''lint'' then run_lint env feedstock_dir
         else raise (ValueError (''Task `'' @ task @ ''` is not valid!''))) (\<lambda>results.
      emit [File (WriteTaskData (path_join task_data_dir ''task_data.json'')
              \<lparr>td_task = task, td_repo = repo, td_pr_number = pr_number, td_sha = sha,
               td_task_results = results\<rparr>),
            File (RemoveTree (path_join feedstock_dir ''.git'')),
            File (RemoveTree feedstock_dir)])))"


section \<open>The task finalizer\<close>

text \<open>
  What the Finalizer gets from outside: the pull request that
  \<^verbatim>\<open>gh_repo.get_pull(int(pr_number))\<close> returns, the push error that
  \<^verbatim>\<open>comment_and_push_if_changed\<close> returns for its arguments, the title error of
  \<^verbatim>\<open>update_pr_title\<close>, the recipes of \<^verbatim>\<open>get_recipes_for_linting\<close>, the
  comments of \<^verbatim>\<open>make_lint_comment\<close> (for the fixed failure text around a run link)
  and \<^verbatim>\<open>build_and_make_lint_comment\<close> (with its status), the fixed troubleshooting
  text that \<^verbatim>\<open>_push_changes\<close> builds with \<^verbatim>\<open>dedent_with_escaped_continue\<close>,
  the temporary directory, \<^verbatim>\<open>GITHUB_RUN_ID\<close> and the run link.
\<close>

record fin_env =
  live_pr :: pull_request
  comment_and_push_if_changed :: "push_args \<Rightarrow> bool"
  update_pr_title :: "string \<Rightarrow> string \<Rightarrow> json \<Rightarrow> bool"
  get_recipes_for_linting :: "json \<Rightarrow> json \<Rightarrow> string list"
  make_lint_comment :: "string \<Rightarrow> comment"
  build_and_make_lint_comment :: "json \<Rightarrow> json \<Rightarrow> comment \<times> string"
  more_info_message :: string
  tmpdir :: string
  github_run_id :: string
  gha_run_link :: string

text \<open>
  \<^verbatim>\<open>_push_changes\<close>, lines 191 to 244. \<open>args\<close> holds the keyword arguments as
  the caller gives them; \<^verbatim>\<open>info_message += more_info_message\<close> appends to a string,
  extends a list by the characters, and is a \<^verbatim>\<open>TypeError\<close> on any other value.
\<close>

definition push_changes :: "fin_env \<Rightarrow> push_args \<Rightarrow> json run" where
  "push_changes env args =
     and_then
       (if truthy (pa_error args) then
          (case pa_info_message args of
             JNull \<Rightarrow> ret (JStr (more_info_message env))
           | JStr s \<Rightarrow> ret (JStr (s @ more_info_message env))
           | JArr xs \<Rightarrow> ret (JArr (xs @ map (\<lambda>c. JStr [c]) (more_info_message env)))
           | _ \<Rightarrow> raise (TypeError ''unsupported operand type(s) for +=''))
        else ret (pa_info_message args)) (\<lambda>info_message.
     (let args' = args\<lparr>pa_info_message := info_message\<rparr>
      in and_then (emit [Update (CommentAndPushIfChanged args')]) (\<lambda>_.
         ret (py_or (pa_error args) (JBool (comment_and_push_if_changed env args'))))))"

text \<open>
  Lines 282 to 333: the default commit message, the fresh clone, the patch and the
  commit. \<^verbatim>\<open>fp.write\<close> and the argument list of \<^verbatim>\<open>git commit\<close> take strings only.
\<close>

definition commit_changes :: "fin_env \<Rightarrow> pull_request \<Rightarrow> dict \<Rightarrow> dict run" where
  "commit_changes env pr task_results =
     (let pr_branch = pr_head_ref pr;
          pr_owner = pr_head_repo_owner_login pr;
          pr_repo = pr_head_repo_name pr
      in
      and_then (lift (getitem task_results ''patch'')) (\<lambda>patch.
      and_then
        (if patch \<noteq> JNull then
           and_then (lift (getitem task_results ''commit_message'')) (\<lambda>commit_message.
           if commit_message = JNull then
             and_then (emit [LogWarning
               (''The webservices tasks did not provide a commit message ''
                @ ''but did provide a patch. This is likely an error. ''
                @ ''Proceeding with a default commit message.'') []]) (\<lambda>_.
             ret (setitem task_results ''commit_message''
                    (JStr ''chore: conda-forge-webservices update'')))
           else ret task_results)
         else ret task_results) (\<lambda>task_results.
      and_then (emit [Git (CloneFrom (''https://github.com/'' @ pr_owner @ ''/'' @ pr_repo @ ''.git'')
                        (path_join (tmpdir env) pr_repo) (Some pr_branch))]) (\<lambda>_.
      and_then (lift (getitem task_results ''patch'')) (\<lambda>patch.
      and_then
        (case patch of
           JNull \<Rightarrow> ret ()
         | JStr p \<Rightarrow> emit [File (WritePatchFile p), Git GitApply, Git GitAddAll]
         | _ \<Rightarrow> raise (TypeError ''write() argument must be str'')) (\<lambda>_.
      and_then (lift (getitem task_results ''commit_message'')) (\<lambda>commit_message.
      and_then
        (case commit_message of
           JNull \<Rightarrow> ret ()
         | JStr m \<Rightarrow> emit [Git (GitCommit m)]
         | _ \<Rightarrow> raise (TypeError ''expected str, bytes or os.PathLike object'')) (\<lambda>_.
      ret task_results))))))))"

text \<open>Lines 336 to 376.\<close>

definition finalize_rerender ::
  "fin_env \<Rightarrow> pull_request \<Rightarrow> string \<Rightarrow> string \<Rightarrow> string option \<Rightarrow> dict \<Rightarrow> unit run" where
  "finalize_rerender env pr full_repo_name pr_number sha_for_status task_results =
     and_then (lift (getitem task_results ''rerender_error'')) (\<lambda>action_error.
     and_then (lift (getitem task_results ''info_message'')) (\<lambda>info_message.
     and_then (lift (getitem task_results ''changed'')) (\<lambda>changed.
     and_then (push_changes env
                 \<lparr>pa_action = ''rerender'', pa_changed = changed, pa_error = action_error,
                  pa_pr_branch = pr_head_ref pr,
                  pa_pr_owner = pr_head_repo_owner_login pr,
                  pa_pr_repo = pr_head_repo_name pr,
                  pa_repo_name = full_repo_name,
                  pa_close_pr_if_no_changes_or_errors = False,
                  pa_info_message = info_message\<rparr>) (\<lambda>comment_push_error.
     (let status = (if \<not> truthy comment_push_error then ''success'' else ''failure'');
          target_url = ''https://github.com/conda-forge/conda-forge-webservices/''
                       @ ''actions/runs/'' @ github_run_id env
      in
      and_then (emit [Update (SetRerenderPrStatus pr_number status target_url sha_for_status)]) (\<lambda>_.
      and_then
        (if \<not> truthy comment_push_error \<and> pr_title pr = ''MNT: rerender''
            \<and> pr_user_login pr = ''conda-forge-admin''
         then emit [Update MarkPrAsReadyForReview] else ret ()) (\<lambda>_.
      if truthy comment_push_error then
        and_then (emit [LogError
          (''Error in rerender for '' @ full_repo_name @ ''#'' @ pr_number @ ''! ''
           @ ''Check the workflow logs of the `run task` job for more details!'') []]) (\<lambda>_.
        raise (SystemExit 1))
      else ret ())))))))"

text \<open>Lines 394 to 404: the error flag that the version update passes on.\<close>

definition version_update_action_error :: "dict \<Rightarrow> json run" where
  "version_update_action_error task_results =
     and_then (lift (getitem task_results ''version_error'')) (\<lambda>version_error.
     if truthy version_error then ret (JBool True)
     else
       and_then (lift (getitem task_results ''version_changed'')) (\<lambda>version_changed.
       if truthy version_changed then lift (getitem task_results ''rerender_error'')
       else ret (JBool False)))"

text \<open>
  Lines 379 to 392: the title update. The result is the local variable
  \<^verbatim>\<open>pr_title_error\<close>, \<open>None\<close> while no statement has assigned it: the branch is
  its only assignment in the function.
\<close>

definition maybe_update_pr_title ::
  "fin_env \<Rightarrow> string \<Rightarrow> string \<Rightarrow> dict \<Rightarrow> bool option run" where
  "maybe_update_pr_title env full_repo_name pr_number task_results =
     and_then
       (and_then (lift (getitem task_results ''version_error'')) (\<lambda>version_error.
        if truthy version_error then ret False
        else
          and_then (lift (getitem task_results ''version_changed'')) (\<lambda>version_changed.
          if \<not> truthy version_changed then ret False
          else
            and_then (lift (getitem task_results ''new_version'')) (\<lambda>new_version.
            ret (truthy new_version))))) (\<lambda>attempt.
     if attempt then
       and_then (lift (getitem task_results ''new_version'')) (\<lambda>new_version.
       and_then (emit [LogInfo ''Updating PR title for %s#%s with version=%s''
                         [JStr full_repo_name, JStr pr_number, new_version],
                       Update (UpdatePrTitle full_repo_name pr_number new_version)]) (\<lambda>_.
       ret (Some (update_pr_title env full_repo_name pr_number new_version))))
     else ret None)"

text \<open>Lines 378 to 431.\<close>

definition finalize_version_update ::
  "fin_env \<Rightarrow> pull_request \<Rightarrow> string \<Rightarrow> string \<Rightarrow> dict \<Rightarrow> unit run" where
  "finalize_version_update env pr full_repo_name pr_number task_results =
     and_then (maybe_update_pr_title env full_repo_name pr_number task_results)
       (\<lambda>pr_title_error.
     and_then (version_update_action_error task_results) (\<lambda>action_error.
     and_then (lift (getitem task_results ''info_message'')) (\<lambda>info_message.
     and_then (lift (getitem task_results ''version_changed'')) (\<lambda>changed.
     and_then (push_changes env
                 \<lparr>pa_action = ''update the version and rerender'', pa_changed = changed,
                  pa_error = action_error,
                  pa_pr_branch = pr_head_ref pr,
                  pa_pr_owner = pr_head_repo_owner_login pr,
                  pa_pr_repo = pr_head_repo_name pr,
                  pa_repo_name = full_repo_name,
                  pa_close_pr_if_no_changes_or_errors = True,
                  pa_info_message = info_message\<rparr>) (\<lambda>comment_push_error.
     and_then
       (if \<not> truthy comment_push_error then emit [Update MarkPrAsReadyForReview] else ret ()) (\<lambda>_.
     (case pr_title_error of
        None \<Rightarrow> raise (UnboundLocalError ''pr_title_error'')
      | Some title_error \<Rightarrow>
          if title_error \<or> truthy comment_push_error then
            and_then (emit [LogError
              (''Error in version update for '' @ full_repo_name @ ''#'' @ pr_number
               @ '': {pr_title_error=} {comment_push_error=}. ''
               @ ''Check the workflow logs of the `run task` job for more details!'')
              [JBool title_error, comment_push_error]]) (\<lambda>_.
            raise (SystemExit 1))
          else ret ())))))))"

text \<open>
  Line 441: \<^verbatim>\<open>any(task_results["errors"].get(rec, True) for rec in recipes_to_lint)\<close>.
  The generator stops at the first true value; \<^verbatim>\<open>.get\<close> exists on a dictionary
  only, and is not reached when there is no recipe.
\<close>

fun any_errors :: "json \<Rightarrow> string list \<Rightarrow> py_exn + bool" where
  "any_errors errors [] = Inr False"
| "any_errors errors (rec # recs) =
     (case errors of
        JObj d \<Rightarrow>
          if truthy (dict_get d rec (JBool True)) then Inr True
          else any_errors errors recs
      | _ \<Rightarrow> Inl (AttributeError ''get''))"

text \<open>Lines 433 to 444: the error flag is re-derived from the recipes in scope.\<close>

definition rescope_lint_error :: "fin_env \<Rightarrow> dict \<Rightarrow> dict run" where
  "rescope_lint_error env task_results =
     and_then (lift (getitem task_results ''lints'')) (\<lambda>lints.
     if lints = JNull then ret task_results
     else
       and_then (lift (getitem task_results ''hints'')) (\<lambda>hints.
       if hints = JNull then ret task_results
       else
         and_then (lift (getitem task_results ''errors'')) (\<lambda>errors.
         if errors = JNull then ret task_results
         else
           and_then (emit [Query (GetRecipesForLinting lints hints)]) (\<lambda>_.
           and_then (lift (any_errors errors (get_recipes_for_linting env lints hints)))
             (\<lambda>any_error.
           if any_error then ret (setitem task_results ''lint_error'' (JBool True))
           else ret task_results)))))"

text \<open>Lines 432 to 483.\<close>

definition finalize_lint ::
  "fin_env \<Rightarrow> string \<Rightarrow> string \<Rightarrow> string option \<Rightarrow> dict \<Rightarrow> unit run" where
  "finalize_lint env full_repo_name pr_number sha_for_status task_results =
     and_then (rescope_lint_error env task_results) (\<lambda>task_results.
     and_then (lift (getitem task_results ''lint_error'')) (\<lambda>lint_error.
     and_then
       (if truthy lint_error then
          and_then (emit [Update (MakeLintComment (gha_run_link env))]) (\<lambda>_.
          ret (make_lint_comment env (gha_run_link env), ''bad''))
        else
          and_then (lift (getitem task_results ''lints'')) (\<lambda>lints.
          and_then (lift (getitem task_results ''hints'')) (\<lambda>hints.
          and_then (emit [Update (BuildAndMakeLintComment lints hints)]) (\<lambda>_.
          ret (build_and_make_lint_comment env lints hints))))) (\<lambda>(msg, status).
     and_then (emit [Update (SetPrStatus sha_for_status status (html_url msg)),
                     Print (''Linter status: '' @ status),
                     Print (''Linter message:'' @ [CHR 0x0A] @ body msg)]) (\<lambda>_.
     and_then (lift (getitem task_results ''lint_error'')) (\<lambda>lint_error.
     if truthy lint_error then
       and_then (emit [LogError
         (''Error in linting for '' @ full_repo_name @ ''#'' @ pr_number @ ''! ''
          @ ''Check the workflow logs of the `run task` job for more details!'') []]) (\<lambda>_.
       raise (SystemExit 1))
     else ret ())))))"

text \<open>The command \<^verbatim>\<open>conda-forge-webservices-finalize-task\<close>, lines 249 to 485.\<close>

definition main_finalize_task :: "fin_env \<Rightarrow> task_data \<Rightarrow> unit run" where
  "main_finalize_task env task_data =
     (let task = td_task task_data;
          repo = td_repo task_data;
          pr_number = td_pr_number task_data;
          task_results = td_task_results task_data;
          sha_for_status = td_sha task_data;
          full_repo_name = ''conda-forge/'' @ repo;
          pr = live_pr env
      in
      and_then (emit [LogInfo ''finalizing task `%s` for conda-forge/%s#%s''
                        [JStr task, JStr repo, JStr pr_number],
                      LogInfo ''task results:'' [],
                      PrintTaskResults task_results,
                      File MakeTempDir,
                      Query CreateApiSessions,
                      Query (GetRepo full_repo_name),
                      Query (GetPull pr_number)]) (\<lambda>_.
      if task \<in> set [''rerender'', ''version_update'', ''lint'']
         \<and> pr_state pr = ''closed''
      then
        emit [LogError (''Closed PRs cannot be linted, rerendered, ''
                        @ '' or have their versions updated! Exiting...'') []]
      else
        and_then
          (if task \<in> set [''rerender'', ''version_update'']
           then commit_changes env pr task_results
           else ret task_results) (\<lambda>task_results.
        if task = ''rerender'' then
          finalize_rerender env pr full_repo_name pr_number sha_for_status task_results
        else if task = ''version_update'' then
          finalize_version_update env pr full_repo_name pr_number task_results
        else if task = ''lint'' then
          finalize_lint env full_repo_name pr_number sha_for_status task_results
        else raise (ValueError (''Task `'' @ task @ ''` is not valid!'')))))"

text \<open>
  The calls that change the pull request or a working tree: clone, patch, stage,
  commit, push and comment and close (all inside
  \<^verbatim>\<open>comment_and_push_if_changed\<close>), comments, statuses, the title, the
  ready-for-review transition, the merge.
\<close>

definition is_mutation :: "effect \<Rightarrow> bool" where
  "is_mutation e =
     (case e of
        Update _ \<Rightarrow> True
      | Git (CloneFrom _ _ _) \<Rightarrow> True
      | Git GitApply \<Rightarrow> True
      | Git GitAddAll \<Rightarrow> True
      | Git (GitCommit _) \<Rightarrow> True
      | File (WritePatchFile _) \<Rightarrow> True
      | _ \<Rightarrow> False)"

section \<open>The automerge trigger\<close>

text \<open>
  Lines 504 to 510: the scan of \<^verbatim>\<open>gh_repo.get_pulls()\<close>, which lists the open pull
  requests. The result is the trace and \<^verbatim>\<open>found_pr\<close>.
\<close>

fun automerge_scan :: "string \<Rightarrow> string \<Rightarrow> pull_request list \<Rightarrow> bool \<Rightarrow> effect list \<times> bool" where
  "automerge_scan full_repo_name sha [] found_pr = ([], found_pr)"
| "automerge_scan full_repo_name sha (pr # prs) found_pr =
     (if pr_head_sha pr = sha then
        (case automerge_scan full_repo_name sha prs True of (es, found) \<Rightarrow>
           ([Query CreateApiSessionsForAdmin,
             Query (GetRepoForAdmin full_repo_name),
             Query (GetPullForAdmin (pr_num pr)),
             Update (AutomergePr (pr_num pr))] @ es, found))
      else automerge_scan full_repo_name sha prs found_pr)"

text \<open>
  The command \<^verbatim>\<open>conda-forge-webservices-automerge\<close>, lines 491 to 518, on the list
  \<open>pulls\<close> of open pull requests of the repository.
\<close>

definition main_automerge :: "pull_request list \<Rightarrow> string \<Rightarrow> string \<Rightarrow> unit run" where
  "main_automerge pulls repo sha =
     (let action_desc = ''task `automerge` for conda-forge/'' @ repo @ ''@'' @ sha;
          full_repo_name = ''conda-forge/'' @ repo
      in
      case automerge_scan full_repo_name sha pulls False of (es, found_pr) \<Rightarrow>
      and_then (emit ([Print (''::notice title=conda-forge-webservices job information::''
                              @ action_desc),
                       Query CreateApiSessions,
                       Query (GetRepo full_repo_name),
                       Query GetPulls] @ es)) (\<lambda>_.
      if \<not> found_pr then
        emit [LogError (''No PR found for '' @ full_repo_name @ ''@'' @ sha @ ''!'') [],
              Print (''::warning title=No PR Found for Automerge::''
                     @ ''No PR found for '' @ full_repo_name @ ''@'' @ sha)]
      else ret ()))"

section \<open>Reading a trace\<close>

text \<open>The Task Results that a trace writes to \<^verbatim>\<open>task_data.json\<close>.\<close>

fun written :: "effect \<Rightarrow> task_data option" where
  "written (File (WriteTaskData p td)) = Some td"
| "written _ = None"

definition written_task_data :: "effect list \<Rightarrow> task_data list" where
  "written_task_data es = List.map_filter written es"

text \<open>
  How a lint finalization ends. It has failed when the process exits with status 1
  after posting the fixed failure comment and setting the status \<^verbatim>\<open>bad\<close> with that
  comment as target; it has passed when it returns normally after building the findings
  comment, setting the status that \<^verbatim>\<open>build_and_make_lint_comment\<close> gives, and
  posting no failure comment.
\<close>

definition lint_failed :: "fin_env \<Rightarrow> task_data \<Rightarrow> bool" where
  "lint_failed env td =
     (snd (main_finalize_task env td) = Inl (SystemExit 1)
      \<and> Update (MakeLintComment (gha_run_link env)) \<in> set (fst (main_finalize_task env td))
      \<and> Update (SetPrStatus (td_sha td) ''bad''
                  (html_url (make_lint_comment env (gha_run_link env))))
          \<in> set (fst (main_finalize_task env td)))"

definition lint_passed :: "fin_env \<Rightarrow> task_data \<Rightarrow> json \<Rightarrow> json \<Rightarrow> bool" where
  "lint_passed env td lints hints =
     (snd (main_finalize_task env td) = Inr ()
      \<and> Update (BuildAndMakeLintComment lints hints) \<in> set (fst (main_finalize_task env td))
      \<and> Update (SetPrStatus (td_sha td) (snd (build_and_make_lint_comment env lints hints))
                  (html_url (fst (build_and_make_lint_comment env lints hints))))
          \<in> set (fst (main_finalize_task env td))
      \<and> Update (MakeLintComment (gha_run_link env)) \<notin> set (fst (main_finalize_task env td)))"

section \<open>Inputs for the witnesses\<close>

definition pr_open :: pull_request where
  "pr_open =
     \<lparr>pr_state = ''open'', pr_num = 7, pr_head_ref = ''bump'', pr_head_sha = ''abc123'',
      pr_head_repo_owner_login = ''contributor'', pr_head_repo_name = ''pkg-feedstock'',
      pr_title = ''Update version'', pr_user_login = ''contributor''\<rparr>"

definition env_open :: fin_env where
  "env_open =
     \<lparr>live_pr = pr_open,
      comment_and_push_if_changed = (\<lambda>_. False),
      update_pr_title = (\<lambda>_ _ _. False),
      get_recipes_for_linting = (\<lambda>_ _. [''b'']),
      make_lint_comment =
        (\<lambda>_. \<lparr>html_url = ''https://forge/comment/1'', body = ''failed''\<rparr>),
      build_and_make_lint_comment =
        (\<lambda>_ _. (\<lparr>html_url = ''https://forge/comment/2'', body = ''findings''\<rparr>, ''good'')),
      more_info_message = ''more'',
      tmpdir = ''/tmp/x'',
      github_run_id = ''42'',
      gha_run_link = ''https://forge/run/42''\<rparr>"

definition env_closed :: fin_env where
  "env_closed = env_open\<lparr>live_pr := pr_open\<lparr>pr_state := ''closed''\<rparr>\<rparr>"

definition env_scope_a :: fin_env where
  "env_scope_a = env_open\<lparr>get_recipes_for_linting := (\<lambda>_ _. [''a''])\<rparr>"

definition env_scope_c :: fin_env where
  "env_scope_c = env_open\<lparr>get_recipes_for_linting := (\<lambda>_ _. [''c''])\<rparr>"

text \<open>The Task Result of a version update that found nothing to update.\<close>

definition td_version_unchanged :: task_data where
  "td_version_unchanged =
     \<lparr>td_task = ''version_update'', td_repo = ''pkg-feedstock'', td_pr_number = ''7'',
      td_sha = None,
      td_task_results =
        [(''version_changed'', JBool False),
         (''version_error'', JBool False),
         (''new_version'', JNull),
         (''patch'', JNull),
         (''rerender_changed'', JBool False),
         (''rerender_error'', JBool False),
         (''info_message'', JNull),
         (''commit_message'', JNull)]\<rparr>"

text \<open>A version-update Task Result with a rerender error on an unchanged version.\<close>

definition td_stale_rerender_error :: task_data where
  "td_stale_rerender_error =
     \<lparr>td_task = ''version_update'', td_repo = ''pkg-feedstock'', td_pr_number = ''7'',
      td_sha = None,
      td_task_results =
        [(''version_changed'', JBool False),
         (''version_error'', JBool False),
         (''new_version'', JNull),
         (''patch'', JNull),
         (''rerender_changed'', JBool False),
         (''rerender_error'', JBool True),
         (''info_message'', JNull),
         (''commit_message'', JNull)]\<rparr>"

definition args_stale_rerender_error :: push_args where
  "args_stale_rerender_error =
     \<lparr>pa_action = ''update the version and rerender'',
      pa_changed = JBool False,
      pa_error = JBool False,
      pa_pr_branch = ''bump'',
      pa_pr_owner = ''contributor'',
      pa_pr_repo = ''pkg-feedstock'',
      pa_repo_name = ''conda-forge/pkg-feedstock'',
      pa_close_pr_if_no_changes_or_errors = True,
      pa_info_message = JNull\<rparr>"

text \<open>A version-update Task Result with a new version and a failed chained rerender.\<close>

definition td_rerender_failed :: task_data where
  "td_rerender_failed =
     \<lparr>td_task = ''version_update'', td_repo = ''pkg-feedstock'', td_pr_number = ''7'',
      td_sha = None,
      td_task_results =
        [(''version_changed'', JBool True),
         (''version_error'', JBool False),
         (''new_version'', JStr ''1.2.3''),
         (''patch'', JStr ''diff --git a/recipe/meta.yaml b/recipe/meta.yaml''),
         (''commit_message'', JStr ''ENH: updated version to 1.2.3''),
         (''rerender_changed'', JBool False),
         (''rerender_error'', JBool True),
         (''info_message'', JStr ''rerender failed'')]\<rparr>"

definition args_rerender_failed :: push_args where
  "args_rerender_failed =
     \<lparr>pa_action = ''update the version and rerender'',
      pa_changed = JBool True,
      pa_error = JBool True,
      pa_pr_branch = ''bump'',
      pa_pr_owner = ''contributor'',
      pa_pr_repo = ''pkg-feedstock'',
      pa_repo_name = ''conda-forge/pkg-feedstock'',
      pa_close_pr_if_no_changes_or_errors = True,
      pa_info_message = JStr ''rerender failedmore''\<rparr>"

definition td_rerender :: task_data where
  "td_rerender =
     \<lparr>td_task = ''rerender'', td_repo = ''pkg-feedstock'', td_pr_number = ''7'',
      td_sha = Some ''abc123'',
      td_task_results =
        [(''changed'', JBool True),
         (''rerender_error'', JBool False),
         (''info_message'', JNull),
         (''commit_message'', JStr ''MNT: rerender''),
         (''patch'', JStr ''diff --git a/.ci b/.ci'')]\<rparr>"

definition td_lint_findings :: task_data where
  "td_lint_findings =
     \<lparr>td_task = ''lint'', td_repo = ''pkg-feedstock'', td_pr_number = ''7'',
      td_sha = Some ''abc123'',
      td_task_results =
        [(''lint_error'', JBool False),
         (''lints'', JObj [(''a'', JArr [JStr ''no license''])]),
         (''hints'', JObj [(''b'', JArr [])]),
         (''errors'', JObj [(''a'', JBool True), (''b'', JBool False)])]\<rparr>"

definition td_lint_flagged :: task_data where
  "td_lint_flagged =
     \<lparr>td_task = ''lint'', td_repo = ''pkg-feedstock'', td_pr_number = ''7'',
      td_sha = Some ''abc123'',
      td_task_results =
        [(''lint_error'', JBool True),
         (''lints'', JObj [(''a'', JArr [JStr ''no license''])]),
         (''hints'', JObj [(''b'', JArr [])]),
         (''errors'', JObj [(''a'', JBool True), (''b'', JBool False)])]\<rparr>"

definition pulls_elsewhere :: "pull_request list" where
  "pulls_elsewhere = [pr_open, pr_open\<lparr>pr_num := 8, pr_head_sha := ''def456''\<rparr>]"

definition env_lint_raises :: run_env where
  "env_lint_raises =
     \<lparr>rerender_op = (False, False, None, None),
      update_version_op = (\<lambda>_ _. (False, False, None)),
      lint_op = LintRaises ''RuntimeError()'' ''Traceback'',
      git_patch = None\<rparr>"

definition env_version_unchanged :: run_env where
  "env_version_unchanged =
     \<lparr>rerender_op = (True, True, Some ''rerender failed'', None),
      update_version_op = (\<lambda>_ _. (False, False, None)),
      lint_op = LintPair [] [],
      git_patch = None\<rparr>"

definition env_version_bumped :: run_env where
  "env_version_bumped =
     \<lparr>rerender_op = (True, False, None, Some ''MNT: Re-rendered with conda-smithy 3.40''),
      update_version_op = (\<lambda>_ _. (True, False, Some ''1.2.3'')),
      lint_op = LintPair [] [],
      git_patch = Some ''diff --git a/recipe/meta.yaml b/recipe/meta.yaml''\<rparr>"

section \<open>Runs, step by step\<close>

lemma and_then_Inl: "and_then (es, Inl x) f = (es, Inl x)"
  by (simp add: and_then_def)

lemma and_then_Inr: "and_then (es, Inr v) f = (es @ fst (f v), snd (f v))"
  by (simp add: and_then_def split: prod.splits)

lemmas run_simps = emit_def ret_def raise_def lift_def and_then_Inl and_then_Inr

lemma fst_and_then:
  "fst (and_then m f) = fst m @ (case snd m of Inl x \<Rightarrow> [] | Inr v \<Rightarrow> fst (f v))"
  by (cases m) (simp add: and_then_def split: sum.splits prod.splits)

lemma snd_and_then:
  "snd (and_then m f) = (case snd m of Inl x \<Rightarrow> Inl x | Inr v \<Rightarrow> snd (f v))"
  by (cases m) (simp add: and_then_def split: sum.splits prod.splits)

section \<open>The runner: lint\<close>

text \<open>
  C5. On a lint task, when the lint operation raises, the Runner returns normally and
  the Task Result it writes has \<^verbatim>\<open>lint_error\<close> true and \<^verbatim>\<open>lints\<close>,
  \<^verbatim>\<open>hints\<close> and \<^verbatim>\<open>errors\<close> null.
\<close>

theorem lint_exception_captured:
  assumes "lint_op env = LintRaises err trace"
  shows "snd (main_run_task env ''lint'' repo pr_number task_data_dir requested_version sha)
           = Inr ()
       \<and> written_task_data
           (fst (main_run_task env ''lint'' repo pr_number task_data_dir requested_version sha))
           = [\<lparr>td_task = ''lint'', td_repo = repo, td_pr_number = pr_number, td_sha = sha,
               td_task_results = [(''lint_error'', JBool True), (''lints'', JNull),
                                  (''hints'', JNull), (''errors'', JNull)]\<rparr>]"
  using assms
  by (simp add: main_run_task_def run_lint_def Let_def run_simps written_task_data_def
        List.map_filter_simps)

theorem lint_exception_captured_witness:
  "snd (main_run_task env_lint_raises ''lint'' ''pkg-feedstock'' ''7'' ''/data'' None None)
     = Inr ()
   \<and> written_task_data
       (fst (main_run_task env_lint_raises ''lint'' ''pkg-feedstock'' ''7'' ''/data'' None None))
       = [\<lparr>td_task = ''lint'', td_repo = ''pkg-feedstock'', td_pr_number = ''7'',
           td_sha = None,
           td_task_results = [(''lint_error'', JBool True), (''lints'', JNull),
                              (''hints'', JNull), (''errors'', JNull)]\<rparr>]"
  using lint_exception_captured
    [of env_lint_raises "''RuntimeError()''" "''Traceback''" "''pkg-feedstock''" "''7''"
        "''/data''" None None]
  by (simp add: env_lint_raises_def)

text \<open>
  A lint Task Result that the Runner writes with findings has the flag
  \<^verbatim>\<open>lint_error\<close> false.
\<close>

lemma runner_lint_flag_false_with_findings:
  assumes "td \<in> set (written_task_data
             (fst (main_run_task env ''lint'' repo pr_number task_data_dir
                     requested_version sha)))"
    and "map_of (td_task_results td) ''lints'' = Some lints" and "lints \<noteq> JNull"
  shows "map_of (td_task_results td) ''lint_error'' = Some (JBool False)"
  using assms
  by (cases "lint_op env")
    (auto simp add: main_run_task_def run_lint_def Let_def run_simps written_task_data_def
       List.map_filter_simps)

section \<open>The runner: version update\<close>

lemma chain_rerender_unchanged:
  "chain_rerender env False nv results =
     ([], Inr (setitem (setitem (setitem (setitem results
               ''rerender_changed'' (JBool False))
               ''rerender_error'' (JBool False))
               ''info_message'' JNull)
               ''commit_message'' JNull))"
  by (simp add: chain_rerender_def ret_def)

lemma chain_rerender_changed:
  "rerender_op env = (True, re, im, Some m) \<Longrightarrow>
   chain_rerender env True nv results =
     ([Tool CallRerender, Git GetGitPatch],
      Inr (setitem (setitem (setitem (setitem (setitem (setitem results
             ''commit_message'' (JStr (''ENH: updated version to '' @ py_format nv)))
             ''rerender_changed'' (JBool True))
             ''rerender_error'' (JBool re))
             ''info_message'' (json_of_opt im))
             ''commit_message'' (JStr (''ENH: updated version to '' @ py_format nv
                                       @ '' & '' @ drop (length ''MNT: '') m)))
             ''patch'' (json_of_opt (git_patch env))))"
  by (simp add: chain_rerender_def Let_def run_simps)

lemma chain_rerender_trace:
  "set (fst (chain_rerender env vc nv results)) \<subseteq> {Tool CallRerender, Git GetGitPatch}"
  by (simp add: chain_rerender_def Let_def run_simps split: prod.splits option.splits)

lemma run_version_update_Inl:
  "normalize_requested_version rv = Inl x \<Longrightarrow> run_version_update env repo rv = ([], Inl x)"
  by (simp add: run_version_update_def run_simps)

lemma run_version_update_Inr:
  assumes "normalize_requested_version rv = Inr iv"
    and "update_version_op env (''conda-forge/'' @ repo) iv = (vc, ve, nv)"
  shows "run_version_update env repo rv =
     ([LogInfo (''version update requested version: '' @ [CHR 0x27] @ ''%s'' @ [CHR 0x27])
         [json_of_opt iv],
       Tool PullDockerImage,
       Tool (CallUpdateVersion (''conda-forge/'' @ repo) iv)]
      @ fst (chain_rerender env vc nv
               [(''version_changed'', JBool vc), (''version_error'', JBool ve),
                (''new_version'', json_of_opt nv), (''patch'', JNull)]),
      snd (chain_rerender env vc nv
               [(''version_changed'', JBool vc), (''version_error'', JBool ve),
                (''new_version'', json_of_opt nv), (''patch'', JNull)]))"
  using assms by (simp add: run_version_update_def Let_def run_simps)

lemma main_run_task_version_update:
  "main_run_task env ''version_update'' repo pr_number task_data_dir requested_version sha =
     and_then (emit [LogInfo (''task `version_update` for conda-forge/'' @ repo @ ''#''
                              @ pr_number) [],
                      Print (''::notice title=conda-forge-webservices job information::''
                             @ ''task `version_update` for conda-forge/'' @ repo @ ''#''
                             @ pr_number),
                      File (MakeDirs (path_join task_data_dir repo)),
                      Git (CloneFrom (''https://github.com/conda-forge/'' @ repo @ ''.git'')
                             (path_join task_data_dir repo) None),
                      Git (FetchPullHead pr_number),
                      Git (SwitchPullHead pr_number)]) (\<lambda>_.
      and_then (run_version_update env repo requested_version) (\<lambda>results.
      emit [File (WriteTaskData (path_join task_data_dir ''task_data.json'')
              \<lparr>td_task = ''version_update'', td_repo = repo, td_pr_number = pr_number,
               td_sha = sha, td_task_results = results\<rparr>),
            File (RemoveTree (path_join (path_join task_data_dir repo) ''.git'')),
            File (RemoveTree (path_join task_data_dir repo))]))"
  by (simp add: main_run_task_def Let_def)

text \<open>
  A version-update run calls the version operation at most once, on the normalized
  request; a run whose normalization raises does not call it.
\<close>

lemma version_update_call:
  assumes "Tool (CallUpdateVersion f iv)
             \<in> set (fst (main_run_task env ''version_update'' repo pr_number task_data_dir
                            requested_version sha))"
  shows "normalize_requested_version requested_version = Inr iv \<and> f = ''conda-forge/'' @ repo"
proof (cases "normalize_requested_version requested_version")
  case (Inl x)
  with assms show ?thesis
    by (simp add: main_run_task_version_update run_version_update_Inl run_simps)
next
  case (Inr iv')
  obtain vc ve nv where op: "update_version_op env (''conda-forge/'' @ repo) iv' = (vc, ve, nv)"
    by (cases "update_version_op env (''conda-forge/'' @ repo) iv'") auto
  have notin: "Tool (CallUpdateVersion f iv) \<notin> set (fst (chain_rerender env vc nv d))" for d
    using chain_rerender_trace [of env vc nv d] by auto
  from assms have "f = ''conda-forge/'' @ repo \<and> iv = iv'"
    unfolding main_run_task_version_update run_version_update_Inr [OF Inr op]
    using notin by (auto simp add: fst_and_then emit_def split: sum.splits)
  with Inr show ?thesis by simp
qed

text \<open>
  A requested version that is present and empty, or spelled \<^verbatim>\<open>null\<close> or
  \<^verbatim>\<open>none\<close> in any case, reaches the version operation as \<open>None\<close>.
\<close>

lemma sentinel_requested_version_normalized:
  assumes "lower v = ''null'' \<or> lower v = ''none'' \<or> v = []"
  shows "Tool (CallUpdateVersion (''conda-forge/'' @ repo) None)
           \<in> set (fst (main_run_task env ''version_update'' repo pr_number task_data_dir
                          (Some v) sha))"
proof -
  from assms have norm: "normalize_requested_version (Some v) = Inr None"
    by (simp add: normalize_requested_version_def)
  obtain vc ve nv where op: "update_version_op env (''conda-forge/'' @ repo) None = (vc, ve, nv)"
    by (cases "update_version_op env (''conda-forge/'' @ repo) None") auto
  show ?thesis
    unfolding main_run_task_version_update run_version_update_Inr [OF norm op]
    by (simp add: fst_and_then emit_def)
qed

text \<open>
  C4. With \<^verbatim>\<open>--requested-version\<close> absent the option has its default
  \<^verbatim>\<open>None\<close>, and line 105 calls \<^verbatim>\<open>.lower()\<close> on it: the Runner ends with an
  \<^verbatim>\<open>AttributeError\<close> and exit status 1, the version operation is not invoked and no
  Task Result is written.
\<close>

theorem absent_requested_version_crashes:
  "snd (main_run_task env ''version_update'' repo pr_number task_data_dir None sha)
     = Inl (AttributeError ''lower'')
   \<and> exit_code (snd (main_run_task env ''version_update'' repo pr_number task_data_dir None sha))
     = 1
   \<and> written_task_data
       (fst (main_run_task env ''version_update'' repo pr_number task_data_dir None sha)) = []
   \<and> fst (main_run_task env ''version_update'' repo pr_number task_data_dir None sha)
     = [LogInfo (''task `version_update` for conda-forge/'' @ repo @ ''#'' @ pr_number) [],
        Print (''::notice title=conda-forge-webservices job information::''
               @ ''task `version_update` for conda-forge/'' @ repo @ ''#'' @ pr_number),
        File (MakeDirs (path_join task_data_dir repo)),
        Git (CloneFrom (''https://github.com/conda-forge/'' @ repo @ ''.git'')
               (path_join task_data_dir repo) None),
        Git (FetchPullHead pr_number),
        Git (SwitchPullHead pr_number)]"
  by (simp add: main_run_task_version_update run_version_update_Inl
        normalize_requested_version_def run_simps written_task_data_def List.map_filter_simps)

text \<open>
  C6. On a version-update task, when the version operation that the Runner calls
  reports \<^verbatim>\<open>version_changed = False\<close>, the Runner does not call the rerender
  operation, returns normally, and writes a Task Result with
  \<^verbatim>\<open>rerender_changed\<close> and \<^verbatim>\<open>rerender_error\<close> false and
  \<^verbatim>\<open>info_message\<close>, \<^verbatim>\<open>commit_message\<close> and \<^verbatim>\<open>patch\<close> null.
\<close>

theorem unchanged_version_skips_rerender:
  assumes "Tool (CallUpdateVersion f iv)
             \<in> set (fst (main_run_task env ''version_update'' repo pr_number task_data_dir
                            requested_version sha))"
    and "update_version_op env f iv = (False, version_error, new_version)"
  shows "Tool CallRerender
           \<notin> set (fst (main_run_task env ''version_update'' repo pr_number task_data_dir
                          requested_version sha))
       \<and> snd (main_run_task env ''version_update'' repo pr_number task_data_dir
                requested_version sha) = Inr ()
       \<and> written_task_data
           (fst (main_run_task env ''version_update'' repo pr_number task_data_dir
                   requested_version sha))
           = [\<lparr>td_task = ''version_update'', td_repo = repo, td_pr_number = pr_number,
               td_sha = sha,
               td_task_results =
                 [(''version_changed'', JBool False),
                  (''version_error'', JBool version_error),
                  (''new_version'', json_of_opt new_version),
                  (''patch'', JNull),
                  (''rerender_changed'', JBool False),
                  (''rerender_error'', JBool False),
                  (''info_message'', JNull),
                  (''commit_message'', JNull)]\<rparr>]"
proof -
  from version_update_call [OF assms(1)]
  have norm: "normalize_requested_version requested_version = Inr iv"
    and f: "f = ''conda-forge/'' @ repo" by simp_all
  from assms(2)
  have op: "update_version_op env (''conda-forge/'' @ repo) iv
              = (False, version_error, new_version)"
    by (simp add: f)
  show ?thesis
    unfolding main_run_task_version_update run_version_update_Inr [OF norm op]
      chain_rerender_unchanged
    by (simp add: run_simps written_task_data_def List.map_filter_simps)
qed

theorem unchanged_version_skips_rerender_witness:
  "Tool CallRerender
     \<notin> set (fst (main_run_task env_version_unchanged ''version_update'' ''pkg-feedstock''
                    ''7'' ''/data'' (Some ''NULL'') None))
   \<and> snd (main_run_task env_version_unchanged ''version_update'' ''pkg-feedstock''
            ''7'' ''/data'' (Some ''NULL'') None) = Inr ()
   \<and> written_task_data
       (fst (main_run_task env_version_unchanged ''version_update'' ''pkg-feedstock''
               ''7'' ''/data'' (Some ''NULL'') None))
       = [\<lparr>td_task = ''version_update'', td_repo = ''pkg-feedstock'', td_pr_number = ''7'',
           td_sha = None,
           td_task_results =
             [(''version_changed'', JBool False),
              (''version_error'', JBool False),
              (''new_version'', JNull),
              (''patch'', JNull),
              (''rerender_changed'', JBool False),
              (''rerender_error'', JBool False),
              (''info_message'', JNull),
              (''commit_message'', JNull)]\<rparr>]"
proof -
  have norm: "normalize_requested_version (Some ''NULL'') = Inr None"
    by (simp add: normalize_requested_version_def lower_def lower_char_def)
  have op: "update_version_op env_version_unchanged f None = (False, False, None)" for f
    by (simp add: env_version_unchanged_def)
  have call: "Tool (CallUpdateVersion ''conda-forge/pkg-feedstock'' None)
                \<in> set (fst (main_run_task env_version_unchanged ''version_update''
                               ''pkg-feedstock'' ''7'' ''/data'' (Some ''NULL'') None))"
    unfolding main_run_task_version_update
    using run_version_update_Inr [OF norm op, of "''pkg-feedstock''"]
    by (simp add: fst_and_then emit_def)
  show ?thesis
    using unchanged_version_skips_rerender [OF call op] by (simp add: json_of_opt_def)
qed

text \<open>
  C7. On a version-update task, when the version operation that the Runner calls
  reports \<^verbatim>\<open>version_changed = True\<close> and the chained rerender reports
  \<^verbatim>\<open>rerender_changed = True\<close> with a commit message that starts with
  \<^verbatim>\<open>"MNT: "\<close>, the commit message of the Task Result is
  \<^verbatim>\<open>"ENH: updated version to {new_version}"\<close>, then \<^verbatim>\<open>" & "\<close>, then the
  rerender's message without that prefix.
\<close>

theorem chained_commit_message:
  assumes "Tool (CallUpdateVersion f iv)
             \<in> set (fst (main_run_task env ''version_update'' repo pr_number task_data_dir
                            requested_version sha))"
    and "update_version_op env f iv = (True, version_error, new_version)"
    and "rerender_op env = (True, rerender_error, info_message, Some (''MNT: '' @ rest))"
  shows "snd (main_run_task env ''version_update'' repo pr_number task_data_dir
                requested_version sha) = Inr ()
       \<and> written_task_data
           (fst (main_run_task env ''version_update'' repo pr_number task_data_dir
                   requested_version sha))
           = [\<lparr>td_task = ''version_update'', td_repo = repo, td_pr_number = pr_number,
               td_sha = sha,
               td_task_results =
                 [(''version_changed'', JBool True),
                  (''version_error'', JBool version_error),
                  (''new_version'', json_of_opt new_version),
                  (''patch'', json_of_opt (git_patch env)),
                  (''commit_message'',
                   JStr (''ENH: updated version to '' @ py_format new_version
                         @ '' & '' @ rest)),
                  (''rerender_changed'', JBool True),
                  (''rerender_error'', JBool rerender_error),
                  (''info_message'', json_of_opt info_message)]\<rparr>]"
proof -
  from version_update_call [OF assms(1)]
  have norm: "normalize_requested_version requested_version = Inr iv"
    and f: "f = ''conda-forge/'' @ repo" by simp_all
  from assms(2)
  have op: "update_version_op env (''conda-forge/'' @ repo) iv
              = (True, version_error, new_version)"
    by (simp add: f)
  show ?thesis
    unfolding main_run_task_version_update run_version_update_Inr [OF norm op]
      chain_rerender_changed [OF assms(3)]
    by (simp add: run_simps written_task_data_def List.map_filter_simps)
qed

theorem chained_commit_message_witness:
  "snd (main_run_task env_version_bumped ''version_update'' ''pkg-feedstock''
          ''7'' ''/data'' (Some ''1.2.3'') None) = Inr ()
   \<and> written_task_data
       (fst (main_run_task env_version_bumped ''version_update'' ''pkg-feedstock''
               ''7'' ''/data'' (Some ''1.2.3'') None))
       = [\<lparr>td_task = ''version_update'', td_repo = ''pkg-feedstock'', td_pr_number = ''7'',
           td_sha = None,
           td_task_results =
             [(''version_changed'', JBool True),
              (''version_error'', JBool False),
              (''new_version'', JStr ''1.2.3''),
              (''patch'', JStr ''diff --git a/recipe/meta.yaml b/recipe/meta.yaml''),
              (''commit_message'',
               JStr ''ENH: updated version to 1.2.3 & Re-rendered with conda-smithy 3.40''),
              (''rerender_changed'', JBool True),
              (''rerender_error'', JBool False),
              (''info_message'', JNull)]\<rparr>]"
proof -
  have norm: "normalize_requested_version (Some ''1.2.3'') = Inr (Some ''1.2.3'')"
    by (simp add: normalize_requested_version_def lower_def lower_char_def)
  have op: "update_version_op env_version_bumped f (Some ''1.2.3'')
              = (True, False, Some ''1.2.3'')" for f
    by (simp add: env_version_bumped_def)
  have rr: "rerender_op env_version_bumped
              = (True, False, None, Some (''MNT: '' @ ''Re-rendered with conda-smithy 3.40''))"
    by (simp add: env_version_bumped_def)
  have call: "Tool (CallUpdateVersion ''conda-forge/pkg-feedstock'' (Some ''1.2.3''))
                \<in> set (fst (main_run_task env_version_bumped ''version_update''
                               ''pkg-feedstock'' ''7'' ''/data'' (Some ''1.2.3'') None))"
    unfolding main_run_task_version_update
    using run_version_update_Inr [OF norm op, of "''pkg-feedstock''"]
    by (simp add: fst_and_then emit_def)
  show ?thesis
    using chained_commit_message [OF call op rr]
    by (simp add: json_of_opt_def py_format_def env_version_bumped_def)
qed

section \<open>The finalizer: dictionaries and traces\<close>

lemma map_of_setitem:
  "map_of (setitem d k v) k' = (if k' = k then Some v else map_of d k')"
  by (induction d) auto

lemma and_then_traceE:
  assumes "e \<in> set (fst (and_then m f))"
  obtains "e \<in> set (fst m)" | v where "snd m = Inr v" and "e \<in> set (fst (f v))"
proof (cases "snd m")
  case (Inl x)
  with assms have "e \<in> set (fst m)" by (simp add: fst_and_then)
  then show thesis using that by blast
next
  case (Inr v)
  with assms have "e \<in> set (fst m) \<or> e \<in> set (fst (f v))" by (simp add: fst_and_then)
  with Inr show thesis using that by blast
qed

lemma and_then_resultE:
  assumes "snd (and_then m f) = Inr w"
  obtains v where "snd m = Inr v" and "snd (f v) = Inr w"
proof (cases "snd m")
  case (Inl x)
  with assms show thesis by (simp add: snd_and_then)
next
  case (Inr v)
  with assms have "snd (f v) = Inr w" by (simp add: snd_and_then)
  with Inr show thesis using that by blast
qed

lemmas fin_defs = main_finalize_task_def commit_changes_def finalize_rerender_def
  finalize_version_update_def maybe_update_pr_title_def version_update_action_error_def
  finalize_lint_def rescope_lint_error_def push_changes_def getitem_def dict_get_def
  py_or_def path_join_def

lemmas fin_inputs = pr_open_def env_open_def env_closed_def env_scope_a_def env_scope_c_def
  td_version_unchanged_def td_stale_rerender_error_def args_stale_rerender_error_def
  td_rerender_def td_lint_findings_def td_lint_flagged_def td_rerender_failed_def
  args_rerender_failed_def

section \<open>The finalizer: a closed pull request\<close>

text \<open>
  C1. For a task \<^verbatim>\<open>rerender\<close>, \<^verbatim>\<open>version_update\<close> or \<^verbatim>\<open>lint\<close>, when the
  state of the live pull request is \<^verbatim>\<open>closed\<close> the Finalizer logs, resolves the
  pull request, logs the error and returns: its trace has no clone, patch, commit,
  push, comment, status, close, title or ready-for-review call, and the exit status
  is 0.
\<close>

theorem closed_pr_no_mutation:
  assumes "td_task td \<in> set [''rerender'', ''version_update'', ''lint'']"
    and "pr_state (live_pr env) = ''closed''"
  shows "main_finalize_task env td =
           ([LogInfo ''finalizing task `%s` for conda-forge/%s#%s''
               [JStr (td_task td), JStr (td_repo td), JStr (td_pr_number td)],
             LogInfo ''task results:'' [],
             PrintTaskResults (td_task_results td),
             File MakeTempDir,
             Query CreateApiSessions,
             Query (GetRepo (''conda-forge/'' @ td_repo td)),
             Query (GetPull (td_pr_number td)),
             LogError (''Closed PRs cannot be linted, rerendered, ''
                       @ '' or have their versions updated! Exiting...'') []],
            Inr ())
       \<and> filter is_mutation (fst (main_finalize_task env td)) = []
       \<and> exit_code (snd (main_finalize_task env td)) = 0"
  using assms
  by (auto simp add: main_finalize_task_def Let_def run_simps is_mutation_def)

theorem closed_pr_no_mutation_witness:
  "(filter is_mutation (fst (main_finalize_task env_closed td_rerender)) = []
    \<and> exit_code (snd (main_finalize_task env_closed td_rerender)) = 0)
   \<and> (filter is_mutation (fst (main_finalize_task env_closed td_version_unchanged)) = []
    \<and> exit_code (snd (main_finalize_task env_closed td_version_unchanged)) = 0)
   \<and> (filter is_mutation (fst (main_finalize_task env_closed td_lint_findings)) = []
    \<and> exit_code (snd (main_finalize_task env_closed td_lint_findings)) = 0)"
proof -
  have closed: "pr_state (live_pr env_closed) = ''closed''"
    by (simp add: env_closed_def)
  have t1: "td_task td_rerender \<in> set [''rerender'', ''version_update'', ''lint'']"
    by (simp add: td_rerender_def)
  have t2: "td_task td_version_unchanged \<in> set [''rerender'', ''version_update'', ''lint'']"
    by (simp add: td_version_unchanged_def)
  have t3: "td_task td_lint_findings \<in> set [''rerender'', ''version_update'', ''lint'']"
    by (simp add: td_lint_findings_def)
  show ?thesis
    using closed_pr_no_mutation [OF t1 closed, THEN conjunct2]
      closed_pr_no_mutation [OF t2 closed, THEN conjunct2]
      closed_pr_no_mutation [OF t3 closed, THEN conjunct2]
    by (intro conjI) (erule conjunct1 conjunct2)+
qed

section \<open>The finalizer: version update\<close>

lemma commit_changes_no_update: "Update u \<notin> set (fst (commit_changes env pr tr))"
  unfolding commit_changes_def Let_def
  by (auto elim!: and_then_traceE simp add: run_simps split: if_splits json.splits)

lemma commit_changes_keeps:
  assumes "snd (commit_changes env pr tr) = Inr tr'" and "k \<noteq> ''commit_message''"
  shows "map_of tr' k = map_of tr k"
  using assms unfolding commit_changes_def Let_def
  by (auto elim!: and_then_resultE simp add: run_simps map_of_setitem
        split: if_splits json.splits)

lemma push_changes_trace:
  assumes "e \<in> set (fst (push_changes env a))"
  shows "\<exists>a'. e = Update (CommentAndPushIfChanged a') \<and> pa_error a' = pa_error a"
  using assms unfolding push_changes_def Let_def
  by (auto elim!: and_then_traceE simp add: run_simps split: if_splits json.splits)

lemma maybe_update_pr_title_trace:
  "Update (CommentAndPushIfChanged a) \<notin> set (fst (maybe_update_pr_title env f n tr))"
  unfolding maybe_update_pr_title_def
  by (auto elim!: and_then_traceE simp add: run_simps split: if_splits)

lemma version_update_action_error_trace: "fst (version_update_action_error tr) = []"
  unfolding version_update_action_error_def
  by (simp add: fst_and_then run_simps split: sum.splits)

lemma version_update_action_error_value:
  assumes "map_of tr ''version_error'' = Some ve"
    and "map_of tr ''version_changed'' = Some vc"
    and "map_of tr ''rerender_error'' = Some re"
  shows "version_update_action_error tr =
           ([], Inr (if truthy ve then JBool True else if truthy vc then re else JBool False))"
  using assms by (simp add: version_update_action_error_def getitem_def run_simps)

lemma finalize_version_update_push:
  assumes "Update (CommentAndPushIfChanged a)
             \<in> set (fst (finalize_version_update env pr f n tr))"
  shows "snd (version_update_action_error tr) = Inr (pa_error a)"
  using assms maybe_update_pr_title_trace [of a env f n tr]
  unfolding finalize_version_update_def
  by (auto elim!: and_then_traceE dest!: push_changes_trace
        simp add: run_simps version_update_action_error_trace
        split: if_splits option.splits)

lemma main_finalize_task_push:
  assumes "td_task td = ''version_update''"
    and "Update (CommentAndPushIfChanged a) \<in> set (fst (main_finalize_task env td))"
  shows "\<exists>tr'. snd (commit_changes env (live_pr env) (td_task_results td)) = Inr tr'
          \<and> Update (CommentAndPushIfChanged a)
              \<in> set (fst (finalize_version_update env (live_pr env)
                             (''conda-forge/'' @ td_repo td) (td_pr_number td) tr'))"
  using assms
    commit_changes_no_update [of "CommentAndPushIfChanged a" env "live_pr env"
      "td_task_results td"]
  unfolding main_finalize_task_def Let_def
  by (auto elim!: and_then_traceE simp add: run_simps split: if_splits)

text \<open>
  C2. On a version-update Task Result, every call of the push/comment step that the
  Finalizer makes is given an error flag whose truth value is
  \<^verbatim>\<open>version_error or (rerender_error and version_changed)\<close>; when
  \<^verbatim>\<open>rerender_error\<close> is a boolean, as the Runner writes it, the flag is that
  boolean value itself. So with \<^verbatim>\<open>version_changed\<close> false a true
  \<^verbatim>\<open>rerender_error\<close> alone does not make the flag true.
\<close>

theorem version_update_action_error_passed:
  assumes "td_task td = ''version_update''"
    and "Update (CommentAndPushIfChanged args) \<in> set (fst (main_finalize_task env td))"
    and "map_of (td_task_results td) ''version_error'' = Some version_error"
    and "map_of (td_task_results td) ''version_changed'' = Some version_changed"
    and "map_of (td_task_results td) ''rerender_error'' = Some rerender_error"
  shows "truthy (pa_error args)
           = (truthy version_error \<or> (truthy rerender_error \<and> truthy version_changed))
       \<and> (rerender_error = JBool (truthy rerender_error) \<longrightarrow>
            pa_error args
              = JBool (truthy version_error
                       \<or> (truthy rerender_error \<and> truthy version_changed)))"
proof -
  from main_finalize_task_push [OF assms(1,2)]
  obtain tr' where
    cc: "snd (commit_changes env (live_pr env) (td_task_results td)) = Inr tr'" and
    push: "Update (CommentAndPushIfChanged args)
             \<in> set (fst (finalize_version_update env (live_pr env)
                            (''conda-forge/'' @ td_repo td) (td_pr_number td) tr'))"
    by blast
  have "map_of tr' ''version_error'' = Some version_error"
    "map_of tr' ''version_changed'' = Some version_changed"
    "map_of tr' ''rerender_error'' = Some rerender_error"
    using commit_changes_keeps [OF cc] assms(3-5) by simp_all
  from version_update_action_error_value [OF this] finalize_version_update_push [OF push]
  have "pa_error args
          = (if truthy version_error then JBool True
             else if truthy version_changed then rerender_error else JBool False)"
    by simp
  then show ?thesis by auto
qed

theorem version_update_action_error_passed_witness:
  "(Update (CommentAndPushIfChanged args_stale_rerender_error)
      \<in> set (fst (main_finalize_task env_open td_stale_rerender_error))
    \<and> pa_error args_stale_rerender_error = JBool False)
   \<and> (Update (CommentAndPushIfChanged args_rerender_failed)
      \<in> set (fst (main_finalize_task env_open td_rerender_failed))
    \<and> pa_error args_rerender_failed = JBool True)"
proof -
  have task: "td_task td_stale_rerender_error = ''version_update''"
    by (simp add: td_stale_rerender_error_def)
  have push: "Update (CommentAndPushIfChanged args_stale_rerender_error)
                \<in> set (fst (main_finalize_task env_open td_stale_rerender_error))"
    by (simp add: fin_defs fin_inputs Let_def run_simps)
  have ve: "map_of (td_task_results td_stale_rerender_error) ''version_error''
              = Some (JBool False)"
    and vc: "map_of (td_task_results td_stale_rerender_error) ''version_changed''
              = Some (JBool False)"
    and re: "map_of (td_task_results td_stale_rerender_error) ''rerender_error''
              = Some (JBool True)"
    by (simp_all add: td_stale_rerender_error_def)
  have task': "td_task td_rerender_failed = ''version_update''"
    by (simp add: td_rerender_failed_def)
  have push': "Update (CommentAndPushIfChanged args_rerender_failed)
                \<in> set (fst (main_finalize_task env_open td_rerender_failed))"
    by (simp add: fin_defs fin_inputs Let_def run_simps)
  have ve': "map_of (td_task_results td_rerender_failed) ''version_error''
              = Some (JBool False)"
    and vc': "map_of (td_task_results td_rerender_failed) ''version_changed''
              = Some (JBool True)"
    and re': "map_of (td_task_results td_rerender_failed) ''rerender_error''
              = Some (JBool True)"
    by (simp_all add: td_rerender_failed_def)
  show ?thesis
    using version_update_action_error_passed [OF task push ve vc re]
      version_update_action_error_passed [OF task' push' ve' vc' re'] push push'
    by simp
qed

text \<open>
  C3. On the Task Result of a version update that found nothing to update, against an
  open pull request, with a push/comment step that succeeds: the title update is not
  attempted, so \<^verbatim>\<open>pr_title_error\<close> is never assigned, and the test of line 424
  reads it. The Finalizer pushes and comments, marks the pull request ready for review
  and then ends with \<^verbatim>\<open>UnboundLocalError\<close>, exit status 1.
\<close>

theorem unchanged_version_finalizer_crashes:
  "main_finalize_task env_open td_version_unchanged =
     ([LogInfo ''finalizing task `%s` for conda-forge/%s#%s''
         [JStr ''version_update'', JStr ''pkg-feedstock'', JStr ''7''],
       LogInfo ''task results:'' [],
       PrintTaskResults (td_task_results td_version_unchanged),
       File MakeTempDir,
       Query CreateApiSessions,
       Query (GetRepo ''conda-forge/pkg-feedstock''),
       Query (GetPull ''7''),
       Git (CloneFrom ''https://github.com/contributor/pkg-feedstock.git''
              ''/tmp/x/pkg-feedstock'' (Some ''bump'')),
       Update (CommentAndPushIfChanged
                 \<lparr>pa_action = ''update the version and rerender'',
                  pa_changed = JBool False,
                  pa_error = JBool False,
                  pa_pr_branch = ''bump'',
                  pa_pr_owner = ''contributor'',
                  pa_pr_repo = ''pkg-feedstock'',
                  pa_repo_name = ''conda-forge/pkg-feedstock'',
                  pa_close_pr_if_no_changes_or_errors = True,
                  pa_info_message = JNull\<rparr>),
       Update MarkPrAsReadyForReview],
      Inl (UnboundLocalError ''pr_title_error''))
   \<and> exit_code (snd (main_finalize_task env_open td_version_unchanged)) = 1"
  by (simp add: fin_defs fin_inputs Let_def run_simps)

section \<open>The finalizer: lint\<close>

lemma any_errors_JObj:
  "any_errors (JObj d) recs = Inr (\<exists>rec \<in> set recs. truthy (dict_get d rec (JBool True)))"
  by (induction recs) auto

lemma rescope_lint_error_value:
  assumes "map_of tr ''lints'' = Some lints" and "lints \<noteq> JNull"
    and "map_of tr ''hints'' = Some hints" and "hints \<noteq> JNull"
    and "map_of tr ''errors'' = Some (JObj errs)"
  shows "rescope_lint_error env tr =
     ([Query (GetRecipesForLinting lints hints)],
      Inr (if \<exists>rec \<in> set (get_recipes_for_linting env lints hints).
                truthy (dict_get errs rec (JBool True))
           then setitem tr ''lint_error'' (JBool True) else tr))"
  using assms
  by (simp add: rescope_lint_error_def getitem_def any_errors_JObj run_simps)

lemma finalize_lint_errored:
  assumes "rescope_lint_error env tr = (es, Inr tr')"
    and "map_of tr' ''lint_error'' = Some flag" and "truthy flag"
  shows "finalize_lint env f n s tr =
     (es @ [Update (MakeLintComment (gha_run_link env)),
            Update (SetPrStatus s ''bad''
                      (html_url (make_lint_comment env (gha_run_link env)))),
            Print (''Linter status: '' @ ''bad''),
            Print (''Linter message:'' @ [CHR 0x0A]
                   @ body (make_lint_comment env (gha_run_link env))),
            LogError (''Error in linting for '' @ f @ ''#'' @ n @ ''! ''
                      @ ''Check the workflow logs of the `run task` job for more details!'')
              []],
      Inl (SystemExit 1))"
  using assms by (simp add: finalize_lint_def getitem_def run_simps)

lemma finalize_lint_clean:
  assumes "rescope_lint_error env tr = (es, Inr tr')"
    and "map_of tr' ''lint_error'' = Some flag" and "\<not> truthy flag"
    and "map_of tr' ''lints'' = Some lints" and "map_of tr' ''hints'' = Some hints"
  shows "finalize_lint env f n s tr =
     (es @ [Update (BuildAndMakeLintComment lints hints),
            Update (SetPrStatus s (snd (build_and_make_lint_comment env lints hints))
                      (html_url (fst (build_and_make_lint_comment env lints hints)))),
            Print (''Linter status: '' @ snd (build_and_make_lint_comment env lints hints)),
            Print (''Linter message:'' @ [CHR 0x0A]
                   @ body (fst (build_and_make_lint_comment env lints hints)))],
      Inr ())"
  using assms by (simp add: finalize_lint_def getitem_def run_simps split: prod.splits)

lemma main_finalize_task_lint:
  assumes "td_task td = ''lint''" and "pr_state (live_pr env) \<noteq> ''closed''"
  shows "main_finalize_task env td =
     ([LogInfo ''finalizing task `%s` for conda-forge/%s#%s''
         [JStr ''lint'', JStr (td_repo td), JStr (td_pr_number td)],
       LogInfo ''task results:'' [],
       PrintTaskResults (td_task_results td),
       File MakeTempDir,
       Query CreateApiSessions,
       Query (GetRepo (''conda-forge/'' @ td_repo td)),
       Query (GetPull (td_pr_number td))]
      @ fst (finalize_lint env (''conda-forge/'' @ td_repo td) (td_pr_number td) (td_sha td)
               (td_task_results td)),
      snd (finalize_lint env (''conda-forge/'' @ td_repo td) (td_pr_number td) (td_sha td)
               (td_task_results td)))"
  using assms by (simp add: main_finalize_task_def Let_def run_simps)

text \<open>
  The final state of a lint finalization with findings: it fails exactly when the
  flag of the Task Result is true or a recipe in scope has a true entry, or no entry,
  in the error map.
\<close>

lemma lint_final_state:
  assumes "td_task td = ''lint''" and "pr_state (live_pr env) \<noteq> ''closed''"
    and "map_of (td_task_results td) ''lints'' = Some lints" and "lints \<noteq> JNull"
    and "map_of (td_task_results td) ''hints'' = Some hints" and "hints \<noteq> JNull"
    and "map_of (td_task_results td) ''errors'' = Some (JObj errs)"
    and "map_of (td_task_results td) ''lint_error'' = Some flag"
  shows "if truthy flag \<or> (\<exists>rec \<in> set (get_recipes_for_linting env lints hints).
                 truthy (dict_get errs rec (JBool True)))
         then lint_failed env td else lint_passed env td lints hints"
proof (cases "\<exists>rec \<in> set (get_recipes_for_linting env lints hints).
                 truthy (dict_get errs rec (JBool True))")
  case True
  with rescope_lint_error_value [OF assms(3-7), of env]
  have r: "rescope_lint_error env (td_task_results td) =
     ([Query (GetRecipesForLinting lints hints)],
      Inr (setitem (td_task_results td) ''lint_error'' (JBool True)))" by simp
  have "map_of (setitem (td_task_results td) ''lint_error'' (JBool True)) ''lint_error''
          = Some (JBool True)"
    by (simp add: map_of_setitem)
  from finalize_lint_errored [OF r this] True show ?thesis
    by (simp add: main_finalize_task_lint [OF assms(1,2)] lint_failed_def)
next
  case False
  with rescope_lint_error_value [OF assms(3-7), of env]
  have r: "rescope_lint_error env (td_task_results td) =
     ([Query (GetRecipesForLinting lints hints)], Inr (td_task_results td))" by simp
  show ?thesis
  proof (cases "truthy flag")
    case True
    from finalize_lint_errored [OF r assms(8) True] True show ?thesis
      by (simp add: main_finalize_task_lint [OF assms(1,2)] lint_failed_def)
  next
    case nt: False
    from finalize_lint_clean [OF r assms(8) nt assms(3,5)] False nt show ?thesis
      by (simp add: main_finalize_task_lint [OF assms(1,2)] lint_passed_def)
  qed
qed

text \<open>
  C8, as stated, for every lint Task Result with non-null findings: with the error map
  \<^verbatim>\<open>{"a": true, "b": false}\<close> and only recipe \<^verbatim>\<open>b\<close> in scope the final
  status would be success. It is not when the Task Result carries a true
  \<^verbatim>\<open>lint_error\<close>: the re-scoping of lines 433 to 444 leaves the flag as it is, and
  the Finalizer posts the failure comment, sets the status \<^verbatim>\<open>bad\<close> and exits with
  status 1.
\<close>

theorem lint_error_scoped_to_recipes_counterexample:
  "td_task td_lint_flagged = ''lint''
   \<and> pr_state (live_pr env_open) = ''open''
   \<and> map_of (td_task_results td_lint_flagged) ''lints''
       = Some (JObj [(''a'', JArr [JStr ''no license''])])
   \<and> map_of (td_task_results td_lint_flagged) ''hints'' = Some (JObj [(''b'', JArr [])])
   \<and> map_of (td_task_results td_lint_flagged) ''errors''
       = Some (JObj [(''a'', JBool True), (''b'', JBool False)])
   \<and> set (get_recipes_for_linting env_open
             (JObj [(''a'', JArr [JStr ''no license''])]) (JObj [(''b'', JArr [])])) = {''b''}
   \<and> snd (main_finalize_task env_open td_lint_flagged) = Inl (SystemExit 1)
   \<and> exit_code (snd (main_finalize_task env_open td_lint_flagged)) = 1
   \<and> \<not> lint_passed env_open td_lint_flagged
         (JObj [(''a'', JArr [JStr ''no license''])]) (JObj [(''b'', JArr [])])"
proof -
  have task: "td_task td_lint_flagged = ''lint''"
    by (simp add: td_lint_flagged_def)
  have is_open: "pr_state (live_pr env_open) = ''open''"
    by (simp add: env_open_def pr_open_def)
  have lints: "map_of (td_task_results td_lint_flagged) ''lints''
                 = Some (JObj [(''a'', JArr [JStr ''no license''])])"
    and hints: "map_of (td_task_results td_lint_flagged) ''hints''
                 = Some (JObj [(''b'', JArr [])])"
    and errors: "map_of (td_task_results td_lint_flagged) ''errors''
                 = Some (JObj [(''a'', JBool True), (''b'', JBool False)])"
    and flag: "map_of (td_task_results td_lint_flagged) ''lint_error'' = Some (JBool True)"
    by (simp_all add: td_lint_flagged_def)
  have scope: "set (get_recipes_for_linting env_open
                      (JObj [(''a'', JArr [JStr ''no license''])]) (JObj [(''b'', JArr [])]))
                 = {''b''}"
    by (simp add: env_open_def)
  have not_closed: "pr_state (live_pr env_open) \<noteq> ''closed''"
    by (simp add: is_open)
  have "lint_failed env_open td_lint_flagged"
    using lint_final_state [OF task not_closed lints _ hints _ errors flag] by simp
  then have exit: "snd (main_finalize_task env_open td_lint_flagged) = Inl (SystemExit 1)"
    by (simp add: lint_failed_def)
  then have code: "exit_code (snd (main_finalize_task env_open td_lint_flagged)) = 1"
    by simp
  from exit have not_passed:
    "\<not> lint_passed env_open td_lint_flagged
         (JObj [(''a'', JArr [JStr ''no license''])]) (JObj [(''b'', JArr [])])"
    by (simp add: lint_passed_def)
  show ?thesis
    by (intro conjI task is_open lints hints errors scope exit code not_passed)
qed

text \<open>
  C8, amended. On a lint Task Result with non-null \<^verbatim>\<open>lints\<close> and
  \<^verbatim>\<open>hints\<close>, an error map in which recipe \<^verbatim>\<open>a\<close> is true and recipe
  \<^verbatim>\<open>b\<close> is false, and the flag \<^verbatim>\<open>lint_error\<close> false (as the Runner writes it
  with findings), against an open pull request: when \<^verbatim>\<open>b\<close> is the only recipe in
  scope the finalization passes, and when \<^verbatim>\<open>a\<close> is in scope it fails.
\<close>

theorem lint_error_scoped_to_recipes:
  assumes "td_task td = ''lint''" and "pr_state (live_pr env) \<noteq> ''closed''"
    and "map_of (td_task_results td) ''lints'' = Some lints" and "lints \<noteq> JNull"
    and "map_of (td_task_results td) ''hints'' = Some hints" and "hints \<noteq> JNull"
    and "map_of (td_task_results td) ''errors'' = Some (JObj errs)"
    and "map_of (td_task_results td) ''lint_error'' = Some (JBool False)"
    and "map_of errs ''a'' = Some (JBool True)" and "map_of errs ''b'' = Some (JBool False)"
  shows "(set (get_recipes_for_linting env lints hints) = {''b''}
            \<longrightarrow> lint_passed env td lints hints)
       \<and> (''a'' \<in> set (get_recipes_for_linting env lints hints) \<longrightarrow> lint_failed env td)"
  using lint_final_state [OF assms(1-8)] assms(9,10)
  by (auto simp add: dict_get_def split: if_splits)

theorem lint_error_scoped_to_recipes_witness:
  "lint_passed env_open td_lint_findings
     (JObj [(''a'', JArr [JStr ''no license''])]) (JObj [(''b'', JArr [])])
   \<and> lint_failed env_scope_a td_lint_findings"
  using
    lint_error_scoped_to_recipes
      [where td = td_lint_findings and env = env_open
         and lints = "JObj [(''a'', JArr [JStr ''no license''])]"
         and hints = "JObj [(''b'', JArr [])]"
         and errs = "[(''a'', JBool True), (''b'', JBool False)]"]
    lint_error_scoped_to_recipes
      [where td = td_lint_findings and env = env_scope_a
         and lints = "JObj [(''a'', JArr [JStr ''no license''])]"
         and hints = "JObj [(''b'', JArr [])]"
         and errs = "[(''a'', JBool True), (''b'', JBool False)]"]
  by (simp add: td_lint_findings_def env_open_def env_scope_a_def pr_open_def)

text \<open>
  C10. On a lint Task Result with non-null findings and an error map, against an open
  pull request: a true \<^verbatim>\<open>lint_error\<close> in the Task Result ends in the failure path
  whatever the recipes in scope are, and so does a recipe in scope that is not a key of
  the error map.
\<close>

theorem lint_rescoping_only_escalates:
  assumes "td_task td = ''lint''" and "pr_state (live_pr env) \<noteq> ''closed''"
    and "map_of (td_task_results td) ''lints'' = Some lints" and "lints \<noteq> JNull"
    and "map_of (td_task_results td) ''hints'' = Some hints" and "hints \<noteq> JNull"
    and "map_of (td_task_results td) ''errors'' = Some (JObj errs)"
    and "map_of (td_task_results td) ''lint_error'' = Some flag"
  shows "(truthy flag \<longrightarrow> lint_failed env td)
       \<and> (\<forall>rec \<in> set (get_recipes_for_linting env lints hints).
            map_of errs rec = None \<longrightarrow> lint_failed env td)"
  using lint_final_state [OF assms]
  by (auto simp add: dict_get_def split: if_splits)

theorem lint_rescoping_only_escalates_witness:
  "lint_failed env_open td_lint_flagged \<and> lint_failed env_scope_c td_lint_findings"
  using
    lint_rescoping_only_escalates
      [where td = td_lint_flagged and env = env_open
         and lints = "JObj [(''a'', JArr [JStr ''no license''])]"
         and hints = "JObj [(''b'', JArr [])]"
         and errs = "[(''a'', JBool True), (''b'', JBool False)]"
         and flag = "JBool True"]
    lint_rescoping_only_escalates
      [where td = td_lint_findings and env = env_scope_c
         and lints = "JObj [(''a'', JArr [JStr ''no license''])]"
         and hints = "JObj [(''b'', JArr [])]"
         and errs = "[(''a'', JBool True), (''b'', JBool False)]"
         and flag = "JBool False"]
  by (simp add: td_lint_findings_def td_lint_flagged_def env_open_def env_scope_c_def
        pr_open_def)

section \<open>The automerge trigger: no matching pull request\<close>

lemma automerge_scan_no_match:
  "\<forall>pr \<in> set pulls. pr_head_sha pr \<noteq> sha \<Longrightarrow>
   automerge_scan full_repo_name sha pulls found_pr = ([], found_pr)"
  by (induction pulls) simp_all

text \<open>
  C9. When no open pull request has the head commit \<^verbatim>\<open>sha\<close>, the automerge
  trigger lists the pull requests, logs, prints the warning notice and returns with
  exit status 0: it creates no session for the admin and evaluates no merge.
\<close>

theorem automerge_no_matching_pr:
  assumes "\<forall>pr \<in> set pulls. pr_head_sha pr \<noteq> sha"
  shows "main_automerge pulls repo sha =
           ([Print (''::notice title=conda-forge-webservices job information::''
                    @ ''task `automerge` for conda-forge/'' @ repo @ ''@'' @ sha),
             Query CreateApiSessions,
             Query (GetRepo (''conda-forge/'' @ repo)),
             Query GetPulls,
             LogError (''No PR found for conda-forge/'' @ repo @ ''@'' @ sha @ ''!'') [],
             Print (''::warning title=No PR Found for Automerge::''
                    @ ''No PR found for conda-forge/'' @ repo @ ''@'' @ sha)],
            Inr ())
       \<and> filter is_mutation (fst (main_automerge pulls repo sha)) = []
       \<and> exit_code (snd (main_automerge pulls repo sha)) = 0"
  using automerge_scan_no_match [OF assms]
  by (simp add: main_automerge_def Let_def run_simps is_mutation_def)

theorem automerge_no_matching_pr_witness:
  "main_automerge pulls_elsewhere ''pkg-feedstock'' ''0000000'' =
     ([Print (''::notice title=conda-forge-webservices job information::''
              @ ''task `automerge` for conda-forge/pkg-feedstock@0000000''),
       Query CreateApiSessions,
       Query (GetRepo ''conda-forge/pkg-feedstock''),
       Query GetPulls,
       LogError ''No PR found for conda-forge/pkg-feedstock@0000000!'' [],
       Print (''::warning title=No PR Found for Automerge::''
              @ ''No PR found for conda-forge/pkg-feedstock@0000000'')],
      Inr ())
   \<and> exit_code (snd (main_automerge pulls_elsewhere ''pkg-feedstock'' ''0000000'')) = 0"
proof -
  have "\<forall>pr \<in> set pulls_elsewhere. pr_head_sha pr \<noteq> ''0000000''"
    by (simp add: pulls_elsewhere_def pr_open_def)
  from automerge_no_matching_pr [OF this, of "''pkg-feedstock''"] show ?thesis
    by simp
qed

end
